theory Spec2Isabelle
  imports Main "HOL-Library.Word"
begin

section \<open>Memory\<close>

text \<open>
  The string type of \<^verbatim>\<open>str.hpp\<close> is a control block with a pointer into one of
  four kinds of memory: the shared read-only literal \<^verbatim>\<open>EmptyBuffer\<close>, the local
  buffer that follows the control block in a \<^verbatim>\<open>StrN\<close> object, a block returned by
  \<^verbatim>\<open>STR_MEMALLOC\<close>, or memory of the caller. A pointer is the name of a block;
  every pointer of the code points at the first byte of its block, and offsets are
  explicit arguments of the memory operations.

  A byte of memory that was never written is indeterminate: the cell \<open>None\<close>.

  An access that C++ leaves undefined (outside the extent of a block, to a released block,
  a write to the literal) is a value of type \<open>error\<close>, and so is a failed \<^verbatim>\<open>STR_ASSERT\<close>,
  which is the default \<^verbatim>\<open>assert\<close>. Every operation takes the control block and the memory
  and returns an error or the new control block and memory, with the value returned when
  there is one.
\<close>

datatype ptr = EmptyBuffer | LocalBuf | Heap nat | Ext nat

type_synonym cell = "char option"

record heap =
  blocks :: "ptr \<Rightarrow> cell list option"
  next_block :: nat

datatype error = AssertFail | BadRead | BadWrite | BadFree

abbreviation NUL :: cell where
  "NUL \<equiv> Some (CHR 0x00)"

text \<open>\<^verbatim>\<open>char* Str::EmptyBuffer = (char*)"\0NULL"\<close>: six bytes with the literal's own terminator.\<close>

definition EmptyBuffer_bytes :: "cell list" where
  "EmptyBuffer_bytes = map Some (CHR 0x00 # ''NULL'' @ [CHR 0x00])"

definition heap0 :: heap where
  "heap0 = \<lparr>blocks = (\<lambda>p. if p = EmptyBuffer then Some EmptyBuffer_bytes else None), next_block = 0\<rparr>"

text \<open>\<^verbatim>\<open>malloc\<close>: a fresh block of \<open>n\<close> indeterminate bytes. The code never checks the result,
  and the allocator is taken never to fail.\<close>

definition malloc :: "heap \<Rightarrow> nat \<Rightarrow> ptr \<times> heap" where
  "malloc h n =
     (Heap (next_block h),
      h\<lparr>blocks := (blocks h)(Heap (next_block h) \<mapsto> replicate n None),
        next_block := Suc (next_block h)\<rparr>)"

text \<open>\<^verbatim>\<open>free\<close>: only a live block of the allocator may be released.\<close>

definition free :: "heap \<Rightarrow> ptr \<Rightarrow> error + heap" where
  "free h p =
     (case p of
        Heap n \<Rightarrow> (case blocks h p of
                     None \<Rightarrow> Inl BadFree
                   | Some b \<Rightarrow> Inr (h\<lparr>blocks := (blocks h)(p := None)\<rparr>))
      | _ \<Rightarrow> Inl BadFree)"

text \<open>Reading \<open>n\<close> bytes at offset \<open>off\<close> of a block, and writing a byte sequence there.
  An access outside the extent of the block, to a released block, or a write to the
  read-only literal, is an error.\<close>

definition read_bytes :: "heap \<Rightarrow> ptr \<Rightarrow> nat \<Rightarrow> nat \<Rightarrow> error + cell list" where
  "read_bytes h p off n =
     (case blocks h p of
        None \<Rightarrow> Inl BadRead
      | Some b \<Rightarrow> if off + n \<le> length b then Inr (take n (drop off b)) else Inl BadRead)"

definition write_bytes :: "heap \<Rightarrow> ptr \<Rightarrow> nat \<Rightarrow> cell list \<Rightarrow> error + heap" where
  "write_bytes h p off bs =
     (case blocks h p of
        None \<Rightarrow> Inl BadWrite
      | Some b \<Rightarrow>
          if p \<noteq> EmptyBuffer \<and> off + length bs \<le> length b
          then Inr (h\<lparr>blocks := (blocks h)(p \<mapsto> take off b @ bs @ drop (off + length bs) b)\<rparr>)
          else Inl BadWrite)"

text \<open>\<^verbatim>\<open>memcpy(dst + doff, src + soff, n)\<close>.\<close>

definition memcpy :: "heap \<Rightarrow> ptr \<Rightarrow> nat \<Rightarrow> ptr \<Rightarrow> nat \<Rightarrow> nat \<Rightarrow> error + heap" where
  "memcpy h dst doff src soff n =
     (case read_bytes h src soff n of
        Inl e \<Rightarrow> Inl e
      | Inr bs \<Rightarrow> write_bytes h dst doff bs)"

text \<open>\<^verbatim>\<open>strncpy(dst, src, n)\<close> on the bytes available at the source: it copies up to the
  first NUL byte and fills the rest of the \<open>n\<close> bytes with NUL; it stops reading at the
  first NUL. \<open>None\<close>: the copy reads past the end of the source block, or branches on an
  indeterminate byte.\<close>

fun strncpy_cells :: "cell list \<Rightarrow> nat \<Rightarrow> cell list option" where
  "strncpy_cells cs 0 = Some []"
| "strncpy_cells [] (Suc n) = None"
| "strncpy_cells (None # cs) (Suc n) = None"
| "strncpy_cells (Some c # cs) (Suc n) =
     (if c = CHR 0x00 then Some (replicate (Suc n) NUL)
      else map_option ((#) (Some c)) (strncpy_cells cs n))"

definition strncpy :: "heap \<Rightarrow> ptr \<Rightarrow> nat \<Rightarrow> ptr \<Rightarrow> nat \<Rightarrow> error + heap" where
  "strncpy h dst doff src n =
     (case blocks h src of
        None \<Rightarrow> Inl BadRead
      | Some b \<Rightarrow> (case strncpy_cells b n of
                     None \<Rightarrow> Inl BadRead
                   | Some bs \<Rightarrow> write_bytes h dst doff bs))"

text \<open>\<^verbatim>\<open>fmt::format_to_n(out, n, fm, args...)\<close> writes the first \<open>n\<close> characters of the
  rendered text at \<open>out\<close>, and no terminator. The formatting library is not part of this
  repository: the rendered text of \<open>fm\<close> and \<open>args\<close> is the parameter \<open>r\<close>, and
  \<^verbatim>\<open>fmt::formatted_size\<close> is its length.\<close>

definition format_to_n :: "heap \<Rightarrow> ptr \<Rightarrow> nat \<Rightarrow> nat \<Rightarrow> string \<Rightarrow> error + heap" where
  "format_to_n h out off n r = write_bytes h out off (map Some (take n r))"

section \<open>Integers\<close>

text \<open>Conversion to the 32-bit \<^verbatim>\<open>int\<close>, to the 64-bit \<^verbatim>\<open>size_t\<close>, and the store into
  an unsigned bit-field of \<open>w\<close> bits.\<close>

definition to_int :: "int \<Rightarrow> int" where
  "to_int x = (x + 2 ^ 31) mod 2 ^ 32 - 2 ^ 31"

definition to_size_t :: "int \<Rightarrow> nat" where
  "to_size_t x = nat (x mod 2 ^ 64)"

definition bitfield :: "nat \<Rightarrow> int \<Rightarrow> nat" where
  "bitfield w x = nat (x mod 2 ^ w)"

section \<open>The control block\<close>

text \<open>\<^verbatim>\<open>class Str\<close>: the pointer and the four bit-fields (\<open>m_size : 24\<close>,
  \<open>m_local_size : 8\<close>, \<open>m_capacity : 24\<close>, \<open>m_owned : 1\<close>). The fields are naturals; every
  assignment to one goes through \<open>bitfield\<close> with the width of the field.\<close>

record Str =
  m_data :: ptr
  m_size :: nat
  m_local_size :: nat
  m_capacity :: nat
  m_owned :: bool

text \<open>\<^verbatim>\<open>std::string_view\<close>: a pointer and a length. The view starts at the first byte of
  its block and may be shorter than the block.\<close>

record string_view =
  sv_data :: ptr
  sv_size :: nat

definition size_str :: "Str \<Rightarrow> int" where
  "size_str s = int (m_size s)"

definition capacity :: "Str \<Rightarrow> int" where
  "capacity s = int (m_capacity s)"

definition owned :: "Str \<Rightarrow> bool" where
  "owned s = (if m_owned s then True else False)"

definition view :: "Str \<Rightarrow> heap \<Rightarrow> error + cell list" where
  "view s h = read_bytes h (m_data s) 0 (m_size s)"

definition is_using_local_buf :: "Str \<Rightarrow> bool" where
  "is_using_local_buf s = (m_data s = LocalBuf)"

text \<open>\<^verbatim>\<open>Str::Str()\<close>.\<close>

definition Str_default :: Str where
  "Str_default = \<lparr>m_data = EmptyBuffer, m_size = 0, m_local_size = 0, m_capacity = 0, m_owned = False\<rparr>"

text \<open>\<^verbatim>\<open>Str::Str(int local_buf_size)\<close>, the constructor for the variants with a local buffer.\<close>

definition Str_local :: "heap \<Rightarrow> int \<Rightarrow> error + (Str \<times> heap)" where
  "Str_local h local_buf_size =
     (if \<not> local_buf_size \<le> 256 then Inl AssertFail
      else case write_bytes h LocalBuf 0 [NUL] of
             Inl e \<Rightarrow> Inl e
           | Inr h1 \<Rightarrow>
               Inr (\<lparr>m_data = LocalBuf, m_size = 0,
                     m_local_size = bitfield 8 local_buf_size,
                     m_capacity = bitfield 24 local_buf_size,
                     m_owned = True\<rparr>, h1))"

text \<open>\<^verbatim>\<open>StrN<LOCALBUFFSIZE>::StrN()\<close>: the object carries \<^verbatim>\<open>char m_local_buf[LOCALBUFFSIZE]\<close>,
  uninitialised, right after the control block, and runs \<^verbatim>\<open>Str(LOCALBUFFSIZE)\<close>.\<close>

definition StrN :: "nat \<Rightarrow> heap \<Rightarrow> error + (Str \<times> heap)" where
  "StrN N h = Str_local (h\<lparr>blocks := (blocks h)(LocalBuf \<mapsto> replicate N None)\<rparr>) (to_int (int N))"

text \<open>The guarded release that opens \<^verbatim>\<open>set_ref\<close>, \<^verbatim>\<open>clear\<close> and \<^verbatim>\<open>reserve_discard\<close> and
  closes \<^verbatim>\<open>reserve\<close>: \<^verbatim>\<open>if (m_owned && !is_using_local_buf()) STR_MEMFREE(m_data);\<close>\<close>

definition free_if_heap :: "Str \<Rightarrow> heap \<Rightarrow> error + heap" where
  "free_if_heap s h = (if m_owned s \<and> \<not> is_using_local_buf s then free h (m_data s) else Inr h)"

definition set_ref :: "Str \<Rightarrow> heap \<Rightarrow> string_view \<Rightarrow> error + (Str \<times> heap)" where
  "set_ref s h sv =
     (case free_if_heap s h of
        Inl e \<Rightarrow> Inl e
      | Inr h1 \<Rightarrow>
          Inr (s\<lparr>m_data := sv_data sv,
                 m_size := bitfield 24 (int (sv_size sv)),
                 m_capacity := bitfield 24 (int (sv_size sv)),
                 m_owned := False\<rparr>, h1))"

text \<open>\<^verbatim>\<open>Str::ref\<close>: a default-constructed temporary, then \<^verbatim>\<open>set_ref\<close>.\<close>

definition ref :: "heap \<Rightarrow> string_view \<Rightarrow> error + (Str \<times> heap)" where
  "ref h sv = set_ref Str_default h sv"

definition clear :: "Str \<Rightarrow> heap \<Rightarrow> error + (Str \<times> heap)" where
  "clear s h =
     (case free_if_heap s h of
        Inl e \<Rightarrow> Inl e
      | Inr h1 \<Rightarrow>
          if m_local_size s \<noteq> 0
          then (case write_bytes h1 LocalBuf 0 [NUL] of
                  Inl e \<Rightarrow> Inl e
                | Inr h2 \<Rightarrow>
                    Inr (s\<lparr>m_data := LocalBuf,
                           m_capacity := bitfield 24 (int (m_local_size s)),
                           m_owned := True,
                           m_size := 0\<rparr>, h2))
          else Inr (s\<lparr>m_data := EmptyBuffer, m_capacity := 0, m_owned := False, m_size := 0\<rparr>, h1))"

text \<open>\<^verbatim>\<open>Str::reserve(int new_capacity)\<close>: grow, keeping the content.\<close>

definition reserve :: "Str \<Rightarrow> heap \<Rightarrow> int \<Rightarrow> error + (Str \<times> heap)" where
  "reserve s h new_capacity =
     (if new_capacity \<le> int (m_capacity s) then Inr (s, h)
      else
        let (new_data, new_capacity', h1) =
              (if new_capacity < int (m_local_size s)
               then (LocalBuf, int (m_local_size s), h)
               else (let (p, h') = malloc h (to_size_t new_capacity) in (p, new_capacity, h')))
        in case memcpy h1 new_data 0 (m_data s) 0 (m_size s) of
             Inl e \<Rightarrow> Inl e
           | Inr h2 \<Rightarrow>
               (case write_bytes h2 new_data (m_size s) [NUL] of
                  Inl e \<Rightarrow> Inl e
                | Inr h3 \<Rightarrow>
                    (case free_if_heap s h3 of
                       Inl e \<Rightarrow> Inl e
                     | Inr h4 \<Rightarrow>
                         Inr (s\<lparr>m_data := new_data,
                                m_capacity := bitfield 24 new_capacity',
                                m_owned := True\<rparr>, h4))))"

text \<open>\<^verbatim>\<open>Str::reserve_discard(int new_capacity)\<close>: grow, dropping the content.\<close>

definition reserve_discard :: "Str \<Rightarrow> heap \<Rightarrow> int \<Rightarrow> error + (Str \<times> heap)" where
  "reserve_discard s h new_capacity =
     (if m_owned s \<and> new_capacity \<le> int (m_capacity s) then Inr (s, h)
      else case free_if_heap s h of
             Inl e \<Rightarrow> Inl e
           | Inr h1 \<Rightarrow>
               if new_capacity < int (m_local_size s)
               then Inr (s\<lparr>m_data := LocalBuf,
                           m_capacity := bitfield 24 (int (m_local_size s)),
                           m_owned := True\<rparr>, h1)
               else let (p, h2) = malloc h1 (to_size_t new_capacity)
                    in Inr (s\<lparr>m_data := p,
                              m_capacity := bitfield 24 new_capacity,
                              m_owned := True\<rparr>, h2))"

definition shrink_to_fit :: "Str \<Rightarrow> heap \<Rightarrow> error + (Str \<times> heap)" where
  "shrink_to_fit s h =
     (if \<not> m_owned s \<or> is_using_local_buf s then Inr (s, h)
      else
        let new_capacity = int (m_size s) + 1
        in if int (m_capacity s) \<le> new_capacity then Inr (s, h)
           else
             let (new_data, h1) = malloc h (to_size_t new_capacity)
             in case memcpy h1 new_data 0 (m_data s) 0 (to_size_t new_capacity) of
                  Inl e \<Rightarrow> Inl e
                | Inr h2 \<Rightarrow>
                    (case free h2 (m_data s) of
                       Inl e \<Rightarrow> Inl e
                     | Inr h3 \<Rightarrow>
                         Inr (s\<lparr>m_data := new_data,
                                m_capacity := bitfield 24 new_capacity\<rparr>, h3)))"

section \<open>Assignment, appending and formatting\<close>

text \<open>\<^verbatim>\<open>Str::set(std::string_view src)\<close>. \<^verbatim>\<open>int buf_len = src.size() + 1\<close> keeps the low
  32 bits of the sum; the \<^verbatim>\<open>memcpy\<close> copies \<open>buf_len\<close> bytes from \<^verbatim>\<open>src.data()\<close>.\<close>

definition set_str :: "Str \<Rightarrow> heap \<Rightarrow> string_view \<Rightarrow> error + (Str \<times> heap)" where
  "set_str s h src =
     (let buf_len = to_int (int (sv_size src) + 1)
      in case reserve_discard s h buf_len of
           Inl e \<Rightarrow> Inl e
         | Inr (s1, h1) \<Rightarrow>
             (case memcpy h1 (m_data s1) 0 (sv_data src) 0 (to_size_t buf_len) of
                Inl e \<Rightarrow> Inl e
              | Inr h2 \<Rightarrow>
                  Inr (s1\<lparr>m_owned := True, m_size := bitfield 24 (int (sv_size src))\<rparr>, h2)))"

text \<open>\<^verbatim>\<open>Str::setf\<close> and \<^verbatim>\<open>Str::setf_nogrow\<close>; the two bodies are the same text in the
  source. The result carries the value returned.\<close>

definition setf :: "Str \<Rightarrow> heap \<Rightarrow> string \<Rightarrow> error + (Str \<times> heap \<times> int)" where
  "setf s h r =
     (let len = to_int (int (length r))
      in case (if int (m_capacity s) < len + 1 then reserve_discard s h (len + 1) else Inr (s, h)) of
           Inl e \<Rightarrow> Inl e
         | Inr (s1, h1) \<Rightarrow>
             if \<not> m_owned s1 then Inl AssertFail
             else (case format_to_n h1 (m_data s1) 0 (m_capacity s1) r of
                     Inl e \<Rightarrow> Inl e
                   | Inr h2 \<Rightarrow> Inr (s1, h2, len)))"

definition setf_nogrow :: "Str \<Rightarrow> heap \<Rightarrow> string \<Rightarrow> error + (Str \<times> heap \<times> int)" where
  "setf_nogrow s h r =
     (let len = to_int (int (length r))
      in case (if int (m_capacity s) < len + 1 then reserve_discard s h (len + 1) else Inr (s, h)) of
           Inl e \<Rightarrow> Inl e
         | Inr (s1, h1) \<Rightarrow>
             if \<not> m_owned s1 then Inl AssertFail
             else (case format_to_n h1 (m_data s1) 0 (m_capacity s1) r of
                     Inl e \<Rightarrow> Inl e
                   | Inr h2 \<Rightarrow> Inr (s1, h2, len)))"

text \<open>\<^verbatim>\<open>Str::append(std::string_view s)\<close>.\<close>

definition append_str :: "Str \<Rightarrow> heap \<Rightarrow> string_view \<Rightarrow> error + (Str \<times> heap \<times> int)" where
  "append_str s h sv =
     (case reserve s h (to_int (size_str s + int (sv_size sv) + 1)) of
        Inl e \<Rightarrow> Inl e
      | Inr (s1, h1) \<Rightarrow>
          (case memcpy h1 (m_data s1) (nat (size_str s1)) (sv_data sv) 0 (sv_size sv) of
             Inl e \<Rightarrow> Inl e
           | Inr h2 \<Rightarrow>
               let s2 = s1\<lparr>m_size := bitfield 24 (int (m_size s1) + int (sv_size sv))\<rparr>
               in (case write_bytes h2 (m_data s2) (m_size s2) [NUL] of
                     Inl e \<Rightarrow> Inl e
                   | Inr h3 \<Rightarrow> Inr (s2, h3, to_int (int (sv_size sv))))))"

text \<open>\<^verbatim>\<open>Str::append_nogrow(std::string_view s)\<close>. The guard compares in \<^verbatim>\<open>size_t\<close>;
  \<open>to_copy\<close> is computed in \<^verbatim>\<open>int\<close>.\<close>

definition append_nogrow :: "Str \<Rightarrow> heap \<Rightarrow> string_view \<Rightarrow> error + (Str \<times> heap \<times> int)" where
  "append_nogrow s h sv =
     (if m_capacity s < to_size_t (int (m_size s) + int (sv_size sv) + 1) then Inr (s, h, - 1)
      else
        let to_copy = min (to_int (int (sv_size sv))) (max 0 (int (m_capacity s) - int (m_size s) - 1))
        in case strncpy h (m_data s) (m_size s) (sv_data sv) (to_size_t to_copy) of
             Inl e \<Rightarrow> Inl e
           | Inr h1 \<Rightarrow>
               let s1 = s\<lparr>m_size := bitfield 24 (int (m_size s) + to_copy)\<rparr>
               in (case write_bytes h1 (m_data s1) (m_size s1) [NUL] of
                     Inl e \<Rightarrow> Inl e
                   | Inr h2 \<Rightarrow> Inr (s1, h2, to_copy)))"

text \<open>\<^verbatim>\<open>Str::appendf\<close> and \<^verbatim>\<open>Str::appendf_nogrow\<close>.\<close>

definition appendf :: "Str \<Rightarrow> heap \<Rightarrow> string \<Rightarrow> error + (Str \<times> heap \<times> int)" where
  "appendf s h r =
     (let len = to_int (int (length r))
      in case (if int (m_capacity s) < len + 1 then reserve s h (len + 1) else Inr (s, h)) of
           Inl e \<Rightarrow> Inl e
         | Inr (s1, h1) \<Rightarrow>
             if \<not> m_owned s1 then Inl AssertFail
             else (case format_to_n h1 (m_data s1) (m_size s1) (m_capacity s1) r of
                     Inl e \<Rightarrow> Inl e
                   | Inr h2 \<Rightarrow>
                       let s2 = s1\<lparr>m_size := bitfield 24 (int (m_size s1) + len)\<rparr>
                       in (case write_bytes h2 (m_data s2) (m_size s2) [NUL] of
                             Inl e \<Rightarrow> Inl e
                           | Inr h3 \<Rightarrow> Inr (s2, h3, len))))"

definition appendf_nogrow :: "Str \<Rightarrow> heap \<Rightarrow> string \<Rightarrow> error + (Str \<times> heap \<times> int)" where
  "appendf_nogrow s h r =
     (let len = to_int (int (length r))
      in if int (m_capacity s) < len + 1 then Inr (s, h, - 1)
         else if \<not> m_owned s then Inl AssertFail
         else (case format_to_n h (m_data s) (m_size s) (m_capacity s) r of
                 Inl e \<Rightarrow> Inl e
               | Inr h2 \<Rightarrow>
                   let s2 = s\<lparr>m_size := bitfield 24 (int (m_size s) + len)\<rparr>
                   in (case write_bytes h2 (m_data s2) (m_size s2) [NUL] of
                         Inl e \<Rightarrow> Inl e
                       | Inr h3 \<Rightarrow> Inr (s2, h3, len))))"

section \<open>Indexed access\<close>

text \<open>\<^verbatim>\<open>char operator[](size_t i) const\<close>, with \<^verbatim>\<open>STR_ASSERT\<close> the default \<^verbatim>\<open>assert\<close>.
  The index is a 64-bit unsigned word. In \<^verbatim>\<open>-m_size < i && i < m_size\<close> the bit-field is
  promoted to \<^verbatim>\<open>int\<close>, negated, and converted to \<^verbatim>\<open>size_t\<close> for the comparison with \<open>i\<close>;
  \<^verbatim>\<open>i < 0\<close> compares the unsigned index with zero.\<close>

definition index_op :: "Str \<Rightarrow> heap \<Rightarrow> 64 word \<Rightarrow> error + cell" where
  "index_op s h i =
     (let neg_size = (word_of_int (- int (m_size s)) :: 64 word);
          sz = (word_of_int (int (m_size s)) :: 64 word)
      in if neg_size < i \<and> i < sz
         then (case read_bytes h (m_data s) (unat (i + (if i < 0 then sz else 0))) 1 of
                 Inl e \<Rightarrow> Inl e
               | Inr cs \<Rightarrow> (case cs of [c] \<Rightarrow> Inr c | _ \<Rightarrow> Inl BadRead))
         else Inl AssertFail)"

section \<open>Test programs\<close>

text \<open>Sequencing of fallible steps, the constructor \<^verbatim>\<open>StrN(std::string_view s)\<close>, and what a
  caller can observe of a result: the control block, \<^verbatim>\<open>view()\<close>, and the bytes of the
  active buffer.\<close>

definition then_do :: "error + 'a \<Rightarrow> ('a \<Rightarrow> error + 'b) \<Rightarrow> error + 'b" where
  "then_do r f = (case r of Inl e \<Rightarrow> Inl e | Inr x \<Rightarrow> f x)"

definition StrN_from :: "nat \<Rightarrow> heap \<Rightarrow> string_view \<Rightarrow> error + (Str \<times> heap)" where
  "StrN_from N h sv = then_do (StrN N h) (\<lambda>(s, h1). set_str s h1 sv)"

definition observe ::
  "error + (Str \<times> heap) \<Rightarrow> error + (Str \<times> (error + cell list) \<times> cell list option)" where
  "observe r = (case r of Inl e \<Rightarrow> Inl e | Inr (s, h) \<Rightarrow> Inr (s, view s h, blocks h (m_data s)))"

definition observe_ret ::
  "error + (Str \<times> heap \<times> int) \<Rightarrow> error + (int \<times> Str \<times> (error + cell list) \<times> cell list option)" where
  "observe_ret r =
     (case r of Inl e \<Rightarrow> Inl e | Inr (s, h, n) \<Rightarrow> Inr (n, s, view s h, blocks h (m_data s)))"

text \<open>Memory of the caller: string literals with their terminator, and one two-byte array
  without one.\<close>

definition cstr :: "string \<Rightarrow> cell list" where
  "cstr xs = map Some xs @ [NUL]"

definition caller_mem :: heap where
  "caller_mem =
     heap0\<lparr>blocks := (blocks heap0)
        (Ext 0 \<mapsto> cstr ''aaaaaaaaaa'',
         Ext 1 \<mapsto> cstr ''bbbbbb'',
         Ext 2 \<mapsto> map Some ''ab'',
         Ext 3 \<mapsto> cstr ''abc'',
         Ext 4 \<mapsto> cstr ''01234567890123456789'')\<rparr>"

text \<open>\<^verbatim>\<open>Str16 s = "aaaaaaaaaa";\<close>\<close>

definition str16_a10 :: "error + (Str \<times> heap)" where
  "str16_a10 = StrN_from 16 caller_mem \<lparr>sv_data = Ext 0, sv_size = 10\<rparr>"

text \<open>\<^verbatim>\<open>test_append_nogrow\<close> of \<^verbatim>\<open>test.cpp\<close>: \<^verbatim>\<open>s.append_nogrow("bbbbbb")\<close>.\<close>

definition test_append_nogrow :: "error + (Str \<times> heap \<times> int)" where
  "test_append_nogrow =
     then_do str16_a10 (\<lambda>(s, h). append_nogrow s h \<lparr>sv_data = Ext 1, sv_size = 6\<rparr>)"

text \<open>\<^verbatim>\<open>Str16 s; s.setf_nogrow(...)\<close> and \<^verbatim>\<open>Str16 s; s.setf(...)\<close> with the rendered texts
  \<^verbatim>\<open>01234567890123456789\<close> and \<^verbatim>\<open>hi\<close>.\<close>

definition run_setf_nogrow :: "error + (Str \<times> heap \<times> int)" where
  "run_setf_nogrow = then_do (StrN 16 heap0) (\<lambda>(s, h). setf_nogrow s h ''01234567890123456789'')"

definition run_setf :: "error + (Str \<times> heap \<times> int)" where
  "run_setf = then_do (StrN 16 heap0) (\<lambda>(s, h). setf s h ''hi'')"

text \<open>\<^verbatim>\<open>Str16 s = "aaaaaaaaaa"; s.appendf(...)\<close> with the rendered text \<^verbatim>\<open>bbbbbbbbbb\<close>, and the
  same with \<^verbatim>\<open>appendf_nogrow\<close>.\<close>

definition run_appendf :: "error + (Str \<times> heap \<times> int)" where
  "run_appendf = then_do str16_a10 (\<lambda>(s, h). appendf s h ''bbbbbbbbbb'')"

definition run_appendf_nogrow :: "error + (Str \<times> heap \<times> int)" where
  "run_appendf_nogrow = then_do str16_a10 (\<lambda>(s, h). appendf_nogrow s h ''bbbbbbbbbb'')"

text \<open>\<^verbatim>\<open>Str s; s.set(std::string_view("abc", 2))\<close>, and \<^verbatim>\<open>set\<close> from the whole of a two-byte
  array.\<close>

definition run_set_prefix :: "error + (Str \<times> heap)" where
  "run_set_prefix = set_str Str_default caller_mem \<lparr>sv_data = Ext 3, sv_size = 2\<rparr>"

definition run_set_unterminated :: "error + (Str \<times> heap)" where
  "run_set_unterminated = set_str Str_default caller_mem \<lparr>sv_data = Ext 2, sv_size = 2\<rparr>"

text \<open>\<^verbatim>\<open>Str256 s; s.clear();\<close>\<close>

definition run_clear_256 :: "error + (Str \<times> heap)" where
  "run_clear_256 = then_do (StrN 256 heap0) (\<lambda>(s, h). clear s h)"

text \<open>\<^verbatim>\<open>Str s = Str::ref("abc"); s[i]\<close>\<close>

definition run_index :: "64 word \<Rightarrow> error + cell" where
  "run_index i =
     then_do (ref caller_mem \<lparr>sv_data = Ext 3, sv_size = 3\<rparr>) (\<lambda>(s, h). index_op s h i)"


text \<open>\<^verbatim>\<open>Str s = Str::ref("aaaaaaaaaa"); s.reserve_discard(3);\<close>\<close>

definition run_reserve_discard_on_ref :: "error + (Str \<times> heap)" where
  "run_reserve_discard_on_ref =
     then_do (ref caller_mem \<lparr>sv_data = Ext 0, sv_size = 10\<rparr>) (\<lambda>(s, h). reserve_discard s h 3)"

text \<open>\<^verbatim>\<open>Str256 s; s.set_ref("aaaaaaaaaa"); s.set("abc");\<close>\<close>

definition run_set_on_ref256 :: "error + (Str \<times> heap)" where
  "run_set_on_ref256 =
     then_do (StrN 256 caller_mem)
       (\<lambda>(s, h). then_do (set_ref s h \<lparr>sv_data = Ext 0, sv_size = 10\<rparr>)
          (\<lambda>(s1, h1). set_str s1 h1 \<lparr>sv_data = Ext 3, sv_size = 3\<rparr>))"

text \<open>A string that owns a heap block of 8 bytes and holds \<^verbatim>\<open>hi\<close>:
  \<^verbatim>\<open>Str s; s.reserve(8); s.set("hi");\<close>\<close>

definition hi_mem :: heap where
  "hi_mem = heap0\<lparr>blocks := (blocks heap0)(Ext 0 \<mapsto> cstr ''hi'')\<rparr>"

definition heap_str :: Str where
  "heap_str = \<lparr>m_data = Heap 0, m_size = 2, m_local_size = 0, m_capacity = 8, m_owned = True\<rparr>"

definition heap_str_mem :: heap where
  "heap_str_mem =
     \<lparr>blocks = (blocks hi_mem)(Heap 0 \<mapsto> cstr ''hi'' @ replicate 5 None), next_block = 1\<rparr>"

text \<open>The states named below: the \<^verbatim>\<open>Str16\<close> holding ten bytes in its local buffer, the same
  object after \<^verbatim>\<open>set_ref("aaaaaaaaaa")\<close>, and a \<^verbatim>\<open>Str16\<close> holding twenty bytes in a heap
  block of 21.\<close>

definition a10_str :: Str where
  "a10_str = \<lparr>m_data = LocalBuf, m_size = 10, m_local_size = 16, m_capacity = 16, m_owned = True\<rparr>"

definition a10_mem :: heap where
  "a10_mem =
     caller_mem\<lparr>blocks := (blocks caller_mem)(LocalBuf \<mapsto> cstr ''aaaaaaaaaa'' @ replicate 5 None)\<rparr>"

definition ref16_str :: Str where
  "ref16_str = \<lparr>m_data = Ext 0, m_size = 10, m_local_size = 16, m_capacity = 10, m_owned = False\<rparr>"

definition h20_str :: Str where
  "h20_str = \<lparr>m_data = Heap 0, m_size = 20, m_local_size = 16, m_capacity = 21, m_owned = True\<rparr>"

definition h20_mem :: heap where
  "h20_mem =
     \<lparr>blocks = (blocks caller_mem)
        (LocalBuf \<mapsto> NUL # replicate 15 None, Heap 0 \<mapsto> cstr ''01234567890123456789''),
      next_block = 1\<rparr>"

text \<open>The memory of \<^verbatim>\<open>test_append\<close> of \<^verbatim>\<open>test.cpp\<close>:
  \<^verbatim>\<open>Str s = Str::ref("asdasdasd"); s += "aaa";\<close>\<close>

definition test_mem :: heap where
  "test_mem =
     heap0\<lparr>blocks := (blocks heap0)(Ext 0 \<mapsto> cstr ''asdasdasd'', Ext 1 \<mapsto> cstr ''aaa'')\<rparr>"

section \<open>Conversions in range\<close>

lemma to_size_t_id: "0 \<le> x \<Longrightarrow> x < 2 ^ 64 \<Longrightarrow> to_size_t x = nat x"
  by (simp add: to_size_t_def)

lemma to_int_id: "- (2 ^ 31) \<le> x \<Longrightarrow> x < 2 ^ 31 \<Longrightarrow> to_int x = x"
  by (simp add: to_int_def)

lemma bitfield_id: "0 \<le> x \<Longrightarrow> x < 2 ^ w \<Longrightarrow> bitfield w x = nat x"
  by (simp add: bitfield_def)

lemma bitfield_le: "0 \<le> x \<Longrightarrow> int (bitfield w x) \<le> x"
  by (simp add: bitfield_def zmod_le_nonneg_dividend)

section \<open>\<^verbatim>\<open>shrink_to_fit\<close>\<close>

text \<open>The result of \<^verbatim>\<open>shrink_to_fit\<close> on a string that owns a live heap block with spare
  capacity: a fresh block of \<open>m_size + 1\<close> bytes with the first \<open>m_size + 1\<close> bytes of the
  old one, and the old one released.\<close>

lemma shrink_to_fit_heap:
  assumes own: "m_owned s" and dat: "m_data s = Heap n" and fresh: "n < next_block h"
    and blk: "blocks h (Heap n) = Some b" and len: "m_capacity s \<le> length b"
    and gt: "m_size s + 1 < m_capacity s" and cap: "m_capacity s < 2 ^ 24"
  shows "shrink_to_fit s h =
           Inr (s\<lparr>m_data := Heap (next_block h), m_capacity := m_size s + 1\<rparr>,
                h\<lparr>blocks := (blocks h)(Heap (next_block h) \<mapsto> take (m_size s + 1) b, Heap n := None),
                  next_block := Suc (next_block h)\<rparr>)"
proof -
  have sz: "to_size_t (int (m_size s) + 1) = m_size s + 1"
    using gt cap by (simp add: to_size_t_id)
  have bf: "bitfield 24 (int (m_size s) + 1) = m_size s + 1"
    using gt cap by (simp add: bitfield_id)
  have ne: "Heap n \<noteq> Heap (next_block h)"
    using fresh by simp
  show ?thesis
    using own dat blk len gt ne
    by (simp add: shrink_to_fit_def is_using_local_buf_def Let_def sz bf malloc_def memcpy_def
        read_bytes_def write_bytes_def free_def)
qed

text \<open>
  \<^bold>\<open>Claim C9.\<close> On a string that owns a live heap block with \<open>capacity() > size() + 1\<close>,
  \<^verbatim>\<open>shrink_to_fit()\<close> returns with \<open>capacity()\<close> equal to \<open>size() + 1\<close>, strictly smaller than
  before; the size, the content seen by \<^verbatim>\<open>view()\<close> and the byte at offset \<open>size()\<close> are
  those of before, and the old block is released. On a string that is not owned (Reference,
  Empty) or that uses its local buffer (Inline) it changes nothing. Whenever it returns, a
  second call changes nothing.
\<close>

theorem shrink_to_fit_spec:
  "(m_owned s \<and> m_data s = Heap n \<and> n < next_block h \<and> blocks h (Heap n) = Some b \<and>
      m_capacity s \<le> length b \<and> m_capacity s < 2 ^ 24 \<and> size_str s + 1 < capacity s \<longrightarrow>
      (case shrink_to_fit s h of
         Inl e \<Rightarrow> False
       | Inr (s', h') \<Rightarrow>
           capacity s' = size_str s + 1 \<and> capacity s' < capacity s \<and> size_str s' = size_str s \<and>
           owned s' \<and> view s' h' = view s h \<and> view s h = Inr (take (m_size s) b) \<and>
           read_bytes h' (m_data s') (m_size s') 1 = read_bytes h (m_data s) (m_size s) 1 \<and>
           blocks h' (Heap n) = None))
   \<and> (\<not> m_owned s \<or> is_using_local_buf s \<longrightarrow> shrink_to_fit s h = Inr (s, h))
   \<and> (case shrink_to_fit s h of
         Inl e \<Rightarrow> True
       | Inr (s', h') \<Rightarrow> shrink_to_fit s' h' = Inr (s', h'))"
proof (intro conjI impI)
  assume a: "m_owned s \<and> m_data s = Heap n \<and> n < next_block h \<and> blocks h (Heap n) = Some b \<and>
      m_capacity s \<le> length b \<and> m_capacity s < 2 ^ 24 \<and> size_str s + 1 < capacity s"
  then have gt: "m_size s + 1 < m_capacity s"
    by (simp add: size_str_def capacity_def)
  have ne: "Heap n \<noteq> Heap (next_block h)"
    using a by auto
  have "take (m_size s) (take (m_size s + 1) b) = take (m_size s) b"
    by (simp add: min_def)
  with a gt ne show "case shrink_to_fit s h of
         Inl e \<Rightarrow> False
       | Inr (s', h') \<Rightarrow>
           capacity s' = size_str s + 1 \<and> capacity s' < capacity s \<and> size_str s' = size_str s \<and>
           owned s' \<and> view s' h' = view s h \<and> view s h = Inr (take (m_size s) b) \<and>
           read_bytes h' (m_data s') (m_size s') 1 = read_bytes h (m_data s) (m_size s) 1 \<and>
           blocks h' (Heap n) = None"
    by (simp add: shrink_to_fit_heap [of s n h b] capacity_def size_str_def owned_def view_def
        read_bytes_def drop_take)
next
  assume "\<not> m_owned s \<or> is_using_local_buf s"
  then show "shrink_to_fit s h = Inr (s, h)"
    by (auto simp: shrink_to_fit_def)
next
  have "int (bitfield 24 (int (m_size s) + 1)) \<le> int (m_size s) + 1"
    by (rule bitfield_le) simp
  then show "case shrink_to_fit s h of
         Inl e \<Rightarrow> True
       | Inr (s', h') \<Rightarrow> shrink_to_fit s' h' = Inr (s', h')"
    by (auto simp: shrink_to_fit_def Let_def is_using_local_buf_def malloc_def
        split: sum.splits prod.splits)
qed

theorem shrink_to_fit_spec_witness:
  "m_owned heap_str \<and> m_data heap_str = Heap 0 \<and> 0 < next_block heap_str_mem \<and>
   blocks heap_str_mem (Heap 0) = Some (cstr ''hi'' @ replicate 5 None) \<and>
   size_str heap_str + 1 < capacity heap_str \<and>
   (case shrink_to_fit heap_str heap_str_mem of
      Inl e \<Rightarrow> False
    | Inr (s', h') \<Rightarrow>
        capacity s' = 3 \<and> size_str s' = 2 \<and> view s' h' = Inr (map Some ''hi'') \<and>
        blocks h' (m_data s') = Some (cstr ''hi'') \<and>
        shrink_to_fit s' h' = Inr (s', h')) \<and>
   \<not> m_owned Str_default \<and> shrink_to_fit Str_default heap0 = Inr (Str_default, heap0)"
  using shrink_to_fit_spec [of heap_str 0 heap_str_mem "cstr ''hi'' @ replicate 5 None"]
    shrink_to_fit_spec [of Str_default 0 heap0 "[]"]
  by (simp add: heap_str_def heap_str_mem_def cstr_def capacity_def size_str_def owned_def
      shrink_to_fit_def is_using_local_buf_def to_size_t_def bitfield_def malloc_def memcpy_def
      read_bytes_def write_bytes_def free_def view_def heap0_def hi_mem_def Str_default_def)

section \<open>Where the code departs from its documentation\<close>

text \<open>
  \<^bold>\<open>Claim C2.\<close> \<^verbatim>\<open>setf_nogrow\<close> has the body of \<^verbatim>\<open>setf\<close>: it calls \<^verbatim>\<open>reserve_discard\<close>.
  On a fresh \<^verbatim>\<open>Str16\<close> (capacity 16, local buffer) a rendered text of 20 characters leaves
  capacity 21 in a heap block, and the call returns 20; \<open>m_size\<close> stays 0 and no terminator
  is written.
\<close>

theorem setf_nogrow_grows:
  "observe (StrN 16 heap0) =
     Inr (\<lparr>m_data = LocalBuf, m_size = 0, m_local_size = 16, m_capacity = 16, m_owned = True\<rparr>,
          Inr [], Some (NUL # replicate 15 None))
   \<and> observe_ret run_setf_nogrow =
     Inr (20, \<lparr>m_data = Heap 0, m_size = 0, m_local_size = 16, m_capacity = 21, m_owned = True\<rparr>,
          Inr [], Some (map Some ''01234567890123456789'' @ [None]))"
  by code_simp

text \<open>
  \<^bold>\<open>Claim C3.\<close> \<^verbatim>\<open>setf\<close> renders into the buffer and returns the length, but it neither
  assigns \<open>m_size\<close> nor writes a terminator: on a fresh \<^verbatim>\<open>Str16\<close>, after \<^verbatim>\<open>setf\<close> with the
  rendered text \<^verbatim>\<open>hi\<close> the call returns 2, \<open>size()\<close> is 0, \<^verbatim>\<open>view()\<close> is empty, and the byte
  after the text is indeterminate.
\<close>

theorem setf_keeps_size:
  "observe_ret run_setf =
     Inr (2, \<lparr>m_data = LocalBuf, m_size = 0, m_local_size = 16, m_capacity = 16, m_owned = True\<rparr>,
          Inr [], Some (map Some ''hi'' @ replicate 14 None))"
  by code_simp

text \<open>
  \<^bold>\<open>Claim C4.\<close> \<^verbatim>\<open>appendf\<close> and \<^verbatim>\<open>appendf_nogrow\<close> compare the capacity with \<open>len + 1\<close>, not
  with \<open>m_size + len + 1\<close>, and give \<^verbatim>\<open>format_to_n\<close> the whole capacity as bound at offset
  \<open>m_size\<close>. A \<^verbatim>\<open>Str16\<close> holding 10 bytes (size 10 \<open>\<le>\<close> capacity 16, a local buffer of 16 bytes)
  and a rendered text of 10 characters: the write covers offsets 10 to 19 and leaves the
  buffer.
\<close>

theorem appendf_overruns:
  "observe str16_a10 =
     Inr (\<lparr>m_data = LocalBuf, m_size = 10, m_local_size = 16, m_capacity = 16, m_owned = True\<rparr>,
          Inr (map Some ''aaaaaaaaaa''), Some (cstr ''aaaaaaaaaa'' @ replicate 5 None))
   \<and> observe_ret run_appendf = Inl BadWrite
   \<and> observe_ret run_appendf_nogrow = Inl BadWrite"
  by code_simp

text \<open>\<^verbatim>\<open>reserve_discard\<close>, called on a reference to 10 bytes with a smaller request, leaves
  the size 10 above the new capacity 3.\<close>

lemma reserve_discard_on_reference:
  "observe run_reserve_discard_on_ref =
     Inr (\<lparr>m_data = Heap 0, m_size = 10, m_local_size = 0, m_capacity = 3, m_owned = True\<rparr>,
          Inl BadRead, Some (replicate 3 None))"
  by code_simp

text \<open>
  \<^bold>\<open>Claim C5.\<close> \<^verbatim>\<open>set\<close> copies \<open>src.size() + 1\<close> bytes from \<^verbatim>\<open>src.data()\<close> and writes no
  terminator of its own. From the view of the first two bytes of \<^verbatim>\<open>"abc"\<close> it copies three
  bytes, and the byte at offset \<open>size()\<close> is \<^verbatim>\<open>c\<close>; from the whole of a two-byte array it reads
  the byte after the array.
\<close>

theorem set_reads_past_view:
  "observe run_set_prefix =
     Inr (\<lparr>m_data = Heap 0, m_size = 2, m_local_size = 0, m_capacity = 3, m_owned = True\<rparr>,
          Inr (map Some ''ab''), Some (map Some ''abc''))
   \<and> observe run_set_unterminated = Inl BadRead"
  by code_simp

text \<open>\<^verbatim>\<open>clear()\<close> on a variant whose local size fits the 8-bit field: for \<open>0 < N < 256\<close>,
  a fresh \<^verbatim>\<open>StrN<N>\<close> is again Inline with capacity \<open>N\<close> after \<^verbatim>\<open>clear()\<close>.\<close>

lemma clear_with_local_size:
  assumes "m_local_size s \<noteq> 0" and "m_local_size s < 2 ^ 8"
    and "free_if_heap s h = Inr h1" and "blocks h1 LocalBuf = Some lb" and "lb \<noteq> []"
  shows "\<exists>h2. clear s h = Inr (s\<lparr>m_data := LocalBuf, m_capacity := m_local_size s,
                                   m_owned := True, m_size := 0\<rparr>, h2)"
  using assms by (cases lb) (simp_all add: clear_def write_bytes_def bitfield_id)

lemma StrN_fields:
  assumes "0 < N" and "N \<le> 256"
  shows "\<exists>h1. StrN N h = Inr (\<lparr>m_data = LocalBuf, m_size = 0, m_local_size = N mod 256,
                                m_capacity = N, m_owned = True\<rparr>, h1)"
proof -
  have "to_int (int N) = int N"
    using assms by (simp add: to_int_id)
  moreover have "bitfield 24 (int N) = N"
    using assms by (simp add: bitfield_id)
  moreover have "bitfield 8 (int N) = N mod 256"
    by (simp add: bitfield_def nat_mod_distrib flip: zmod_int)
  moreover have "replicate N None \<noteq> ([] :: cell list)"
    using assms by simp
  ultimately show ?thesis
    using assms by (cases "replicate N None :: cell list") 
      (auto simp: StrN_def Str_local_def write_bytes_def)
qed

lemma clear_StrN_below_256:
  assumes "0 < N" and "N < 256"
  shows "\<exists>h2. then_do (StrN N h) (\<lambda>(s, h1). clear s h1) =
           Inr (\<lparr>m_data = LocalBuf, m_size = 0, m_local_size = N, m_capacity = N, m_owned = True\<rparr>, h2)"
proof -
  obtain h1 where st: "StrN N h = Inr (\<lparr>m_data = LocalBuf, m_size = 0, m_local_size = N mod 256,
                                m_capacity = N, m_owned = True\<rparr>, h1)"
    using StrN_fields [of N h] assms by auto
  let ?s = "\<lparr>m_data = LocalBuf, m_size = 0, m_local_size = N, m_capacity = N, m_owned = True\<rparr>"
  have md: "N mod 256 = N"
    using assms by simp
  obtain lb where lb: "blocks h1 LocalBuf = Some lb" "lb \<noteq> []"
    using st assms
    by (cases "replicate N None :: cell list")
      (auto simp: StrN_def Str_local_def write_bytes_def split: if_splits)
  have "free_if_heap ?s h1 = Inr h1"
    by (simp add: free_if_heap_def is_using_local_buf_def)
  then obtain h2 where "clear ?s h1 = Inr (?s\<lparr>m_data := LocalBuf, m_capacity := m_local_size ?s,
                                   m_owned := True, m_size := 0\<rparr>, h2)"
    using clear_with_local_size [of ?s h1 h1 lb] assms lb by auto
  then show ?thesis
    using st md by (auto simp: then_do_def)
qed

text \<open>
  \<^bold>\<open>Claim C8.\<close> The constructor stores the local buffer size 256 in the 8-bit field
  \<open>m_local_size\<close>, which then holds 0; \<^verbatim>\<open>clear()\<close> on a \<^verbatim>\<open>Str256\<close> takes the branch of the
  base variant: capacity 0, not owned, pointing at \<^verbatim>\<open>EmptyBuffer\<close>.
\<close>

theorem clear_Str256:
  "observe run_clear_256 =
     Inr (\<lparr>m_data = EmptyBuffer, m_size = 0, m_local_size = 0, m_capacity = 0, m_owned = False\<rparr>,
          Inr [], Some EmptyBuffer_bytes)"
  by code_simp

text \<open>The assertion of \<^verbatim>\<open>operator[]\<close> holds for no index: for a size \<open>n > 0\<close> it asks for
  \<open>2\<^sup>6\<^sup>4 - n < i\<close> and \<open>i < n\<close> on unsigned 64-bit values, for the size 0 for \<open>i < 0\<close>.\<close>

lemma index_op_always_fails: "m_size s < 2 ^ 24 \<Longrightarrow> index_op s h i = Inl AssertFail"
proof -
  assume n: "m_size s < 2 ^ 24"
  let ?n = "int (m_size s)"
  have a: "uint (word_of_int ?n :: 64 word) = ?n"
    using n by (simp add: unsigned_of_nat take_bit_nat_eq_self)
  have b: "uint (word_of_int (- ?n) :: 64 word) = (- ?n) mod 2 ^ 64"
    by (simp only: uint_word_of_int len_of_numeral_defs) simp
  have c: "(- ?n) mod 2 ^ 64 = (if ?n = 0 then 0 else 2 ^ 64 - ?n)"
    using n by (auto simp: zmod_zminus1_eq_if)
  have "\<not> ((word_of_int (- ?n) :: 64 word) < i \<and> i < word_of_int ?n)"
    using n unfolding word_less_def a b c by (auto split: if_splits)
  then show ?thesis
    by (auto simp: index_op_def Let_def)
qed

text \<open>
  \<^bold>\<open>Claim C10.\<close> On a string of length 3, \<^verbatim>\<open>s[-1]\<close> (the index \<open>2\<^sup>6\<^sup>4 - 1\<close>) and \<^verbatim>\<open>s[2]\<close> both
  fail the assertion; neither reads a byte.
\<close>

theorem index_assert_fails:
  "run_index (- 1) = Inl AssertFail \<and> run_index 2 = Inl AssertFail"
  by code_simp

section \<open>The named states are reached through the interface\<close>

lemma str16_a10_eq: "str16_a10 = Inr (a10_str, a10_mem)"
  by (simp add: str16_a10_def StrN_from_def then_do_def StrN_def Str_local_def set_str_def
      reserve_discard_def memcpy_def read_bytes_def write_bytes_def to_int_def to_size_t_def
      bitfield_def caller_mem_def heap0_def cstr_def a10_str_def a10_mem_def Let_def)

lemma heap_str_eq:
  "then_do (reserve Str_default hi_mem 8) (\<lambda>(s, h). set_str s h \<lparr>sv_data = Ext 0, sv_size = 2\<rparr>) =
     Inr (heap_str, heap_str_mem)"
  by (simp add: then_do_def reserve_def Str_default_def hi_mem_def heap_str_mem_def heap_str_def
      heap0_def cstr_def malloc_def memcpy_def read_bytes_def write_bytes_def free_if_heap_def
      set_str_def reserve_discard_def to_int_def to_size_t_def bitfield_def Let_def
      EmptyBuffer_bytes_def)

lemma h20_eq: "StrN_from 16 caller_mem \<lparr>sv_data = Ext 4, sv_size = 20\<rparr> = Inr (h20_str, h20_mem)"
  by (simp add: StrN_from_def then_do_def StrN_def Str_local_def set_str_def
      reserve_discard_def memcpy_def read_bytes_def write_bytes_def to_int_def to_size_t_def
      bitfield_def caller_mem_def heap0_def cstr_def h20_str_def h20_mem_def Let_def
      free_if_heap_def is_using_local_buf_def malloc_def fun_upd_twist)

lemma ref16_eq: "set_ref a10_str a10_mem \<lparr>sv_data = Ext 0, sv_size = 10\<rparr> = Inr (ref16_str, a10_mem)"
  by (simp add: set_ref_def a10_str_def ref16_str_def free_if_heap_def is_using_local_buf_def bitfield_def)

section \<open>\<^verbatim>\<open>append_nogrow\<close>\<close>

text \<open>
  \<^bold>\<open>Claim C1, as stated, fails.\<close> On the \<^verbatim>\<open>Str16\<close> holding 10 bytes, \<^verbatim>\<open>append_nogrow\<close> of 6
  bytes returns \<open>-1\<close> (the guard is \<open>m_capacity < m_size + s.size() + 1\<close>, here \<open>16 < 17\<close>), and
  it returns before any byte is copied: the size, the view and every byte of the buffer are
  those of before. This is \<^verbatim>\<open>test_append_nogrow\<close> of \<^verbatim>\<open>test.cpp\<close>.
\<close>

theorem append_nogrow_exact_fit_fails:
  "observe str16_a10 =
     Inr (\<lparr>m_data = LocalBuf, m_size = 10, m_local_size = 16, m_capacity = 16, m_owned = True\<rparr>,
          Inr (map Some ''aaaaaaaaaa''), Some (cstr ''aaaaaaaaaa'' @ replicate 5 None))
   \<and> observe_ret test_append_nogrow =
     Inr (- 1, \<lparr>m_data = LocalBuf, m_size = 10, m_local_size = 16, m_capacity = 16, m_owned = True\<rparr>,
          Inr (map Some ''aaaaaaaaaa''), Some (cstr ''aaaaaaaaaa'' @ replicate 5 None))"
  by code_simp

text \<open>\<^verbatim>\<open>strncpy\<close> copies a text without NUL bytes as it is.\<close>

lemma strncpy_cells_text:
  "n \<le> length sb \<Longrightarrow> take n sb = map Some x \<Longrightarrow> CHR 0x00 \<notin> set x \<Longrightarrow>
   strncpy_cells sb n = Some (map Some x)"
proof (induction sb n arbitrary: x rule: strncpy_cells.induct)
  case (1 cs)
  then show ?case by simp
next
  case (2 n)
  then show ?case by simp
next
  case (3 cs n)
  then show ?case by (cases x) auto
next
  case (4 c cs n)
  then show ?case by (cases x) auto
qed

text \<open>
  \<^bold>\<open>Claim C1, amended.\<close> When \<open>m_size + s.size() + 1 \<le> m_capacity\<close> and the buffer has
  \<open>m_capacity\<close> bytes, \<^verbatim>\<open>append_nogrow\<close> of a text without NUL bytes returns its length,
  appends all of its bytes to the content, writes the terminator after them, and keeps the
  buffer and the capacity; nothing is allocated and no other block changes. Otherwise it
  returns \<open>-1\<close> and leaves the string and the memory as they were: there is no truncated
  write.
\<close>

theorem append_nogrow_spec:
  assumes "m_size s < 2 ^ 24" and "m_capacity s < 2 ^ 24" and "sv_size sv < 2 ^ 32"
  shows
  "(m_size s + sv_size sv + 1 \<le> m_capacity s \<and>
      blocks h (m_data s) = Some db \<and> m_data s \<noteq> EmptyBuffer \<and> m_capacity s \<le> length db \<and>
      sv_data sv \<noteq> m_data s \<and>
      read_bytes h (sv_data sv) 0 (sv_size sv) = Inr (map Some x) \<and> CHR 0x00 \<notin> set x \<longrightarrow>
      (case append_nogrow s h sv of
         Inl e \<Rightarrow> False
       | Inr (s', h', ret) \<Rightarrow>
           ret = int (sv_size sv) \<and> size_str s' = size_str s + int (sv_size sv) \<and>
           capacity s' = capacity s \<and> m_data s' = m_data s \<and> owned s' = owned s \<and>
           view s h = Inr (take (m_size s) db) \<and>
           view s' h' = Inr (take (m_size s) db @ map Some x) \<and>
           read_bytes h' (m_data s') (m_size s') 1 = Inr [NUL] \<and>
           next_block h' = next_block h \<and>
           (\<forall>p. p \<noteq> m_data s \<longrightarrow> blocks h' p = blocks h p)))
   \<and> (\<not> m_size s + sv_size sv + 1 \<le> m_capacity s \<longrightarrow> append_nogrow s h sv = Inr (s, h, - 1))"
proof (intro conjI impI)
  have big: "int (m_size s) + int (sv_size sv) + 1 < 2 ^ 64"
    using assms by simp
  have sz: "to_size_t (int (m_size s) + int (sv_size sv) + 1) = m_size s + sv_size sv + 1"
    using big by (simp add: to_size_t_id nat_add_distrib)
  {
    assume "\<not> m_size s + sv_size sv + 1 \<le> m_capacity s"
    then show "append_nogrow s h sv = Inr (s, h, - 1)"
      by (simp add: append_nogrow_def sz)
  }
  assume a: "m_size s + sv_size sv + 1 \<le> m_capacity s \<and>
      blocks h (m_data s) = Some db \<and> m_data s \<noteq> EmptyBuffer \<and> m_capacity s \<le> length db \<and>
      sv_data sv \<noteq> m_data s \<and>
      read_bytes h (sv_data sv) 0 (sv_size sv) = Inr (map Some x) \<and> CHR 0x00 \<notin> set x"
  then obtain sb where sb: "blocks h (sv_data sv) = Some sb" "sv_size sv \<le> length sb"
      "take (sv_size sv) sb = map Some x"
    by (auto simp: read_bytes_def split: option.splits if_splits)
  have lx: "length x = sv_size sv"
    using sb(2,3) by (metis length_map length_take min.absorb2)
  have cp: "strncpy_cells sb (sv_size sv) = Some (map Some x)"
    using sb a by (simp add: strncpy_cells_text)
  have small: "sv_size sv < 2 ^ 24"
    using a assms by simp
  have ti: "to_int (int (sv_size sv)) = int (sv_size sv)"
    using small by (simp add: to_int_id)
  have tc: "min (int (sv_size sv)) (max 0 (int (m_capacity s) - int (m_size s) - 1)) = int (sv_size sv)"
    using a by simp
  have ts: "to_size_t (int (sv_size sv)) = sv_size sv"
    using small by (simp add: to_size_t_id)
  have fit: "m_size s + sv_size sv \<le> length db - Suc 0" "m_size s + sv_size sv < length db"
    using a by auto
  have bf: "bitfield 24 (int (m_size s) + int (sv_size sv)) = m_size s + sv_size sv"
    using a assms by (simp add: bitfield_id nat_add_distrib)
  show "case append_nogrow s h sv of
         Inl e \<Rightarrow> False
       | Inr (s', h', ret) \<Rightarrow>
           ret = int (sv_size sv) \<and> size_str s' = size_str s + int (sv_size sv) \<and>
           capacity s' = capacity s \<and> m_data s' = m_data s \<and> owned s' = owned s \<and>
           view s h = Inr (take (m_size s) db) \<and>
           view s' h' = Inr (take (m_size s) db @ map Some x) \<and>
           read_bytes h' (m_data s') (m_size s') 1 = Inr [NUL] \<and>
           next_block h' = next_block h \<and>
           (\<forall>p. p \<noteq> m_data s \<longrightarrow> blocks h' p = blocks h p)"
    using a sb lx fit
    by (simp add: append_nogrow_def sz ti tc ts bf cp strncpy_def write_bytes_def Let_def
        size_str_def capacity_def owned_def view_def read_bytes_def)
qed

theorem append_nogrow_spec_witness:
  "(m_size a10_str + 5 + 1 \<le> m_capacity a10_str \<and>
    read_bytes a10_mem (Ext 1) 0 5 = Inr (map Some ''bbbbb'') \<and>
    (case append_nogrow a10_str a10_mem \<lparr>sv_data = Ext 1, sv_size = 5\<rparr> of
       Inl e \<Rightarrow> False
     | Inr (s', h', ret) \<Rightarrow>
         ret = 5 \<and> size_str s' = 15 \<and> capacity s' = 16 \<and>
         view s' h' = Inr (map Some ''aaaaaaaaaabbbbb'') \<and>
         read_bytes h' (m_data s') (m_size s') 1 = Inr [NUL]))
   \<and> (\<not> m_size a10_str + 6 + 1 \<le> m_capacity a10_str \<and>
      append_nogrow a10_str a10_mem \<lparr>sv_data = Ext 1, sv_size = 6\<rparr> = Inr (a10_str, a10_mem, - 1))"
proof -
  have rd: "read_bytes a10_mem (Ext 1) 0 5 = Inr (map Some ''bbbbb'')"
    by code_simp
  have blk: "blocks a10_mem LocalBuf = Some (cstr ''aaaaaaaaaa'' @ replicate 5 None)"
    by (simp add: a10_mem_def)
  have fit: "m_size a10_str + 5 + 1 \<le> m_capacity a10_str"
    and nofit: "\<not> m_size a10_str + 6 + 1 \<le> m_capacity a10_str"
    by (simp_all add: a10_str_def)
  have ok: "case append_nogrow a10_str a10_mem \<lparr>sv_data = Ext 1, sv_size = 5\<rparr> of
       Inl e \<Rightarrow> False
     | Inr (s', h', ret) \<Rightarrow>
         ret = 5 \<and> size_str s' = 15 \<and> capacity s' = 16 \<and>
         view s' h' = Inr (map Some ''aaaaaaaaaabbbbb'') \<and>
         read_bytes h' (m_data s') (m_size s') 1 = Inr [NUL]"
    using append_nogrow_spec [of a10_str "\<lparr>sv_data = Ext 1, sv_size = 5\<rparr>" a10_mem
        "cstr ''aaaaaaaaaa'' @ replicate 5 None" "''bbbbb''"] rd blk fit
    by (auto simp: a10_str_def cstr_def size_str_def capacity_def split: sum.splits prod.splits)
  have no: "append_nogrow a10_str a10_mem \<lparr>sv_data = Ext 1, sv_size = 6\<rparr> = Inr (a10_str, a10_mem, - 1)"
    using append_nogrow_spec [of a10_str "\<lparr>sv_data = Ext 1, sv_size = 6\<rparr>" a10_mem "[]" "[]"] nofit
    by (simp add: a10_str_def)
  from rd fit nofit ok no show ?thesis
    by blast
qed

section \<open>Where \<^verbatim>\<open>set\<close> puts the bytes\<close>


text \<open>On a \<^verbatim>\<open>Str256\<close> the field \<open>m_local_size\<close> holds 0, so from a reference \<^verbatim>\<open>set("abc")\<close>
  allocates.\<close>

lemma set_on_Str256_reference:
  "observe run_set_on_ref256 =
     Inr (\<lparr>m_data = Heap 0, m_size = 3, m_local_size = 0, m_capacity = 4, m_owned = True\<rparr>,
          Inr (map Some ''abc''), Some (cstr ''abc''))"
  by code_simp



section \<open>From a reference to an owned copy\<close>

text \<open>\<^verbatim>\<open>append\<close> on a string that refers to \<open>m_size\<close> bytes of the caller.\<close>

lemma append_str_unowned:
  assumes un: "\<not> m_owned s" and dat: "m_data s = Ext k" and cap: "m_capacity s = m_size s"
    and b: "blocks h (Ext k) = Some bb" "m_size s \<le> length bb"
    and c: "sv_data c = Ext j" "blocks h (Ext j) = Some cb" "sv_size c \<le> length cb"
    and lim: "m_size s + sv_size c + 1 < 2 ^ 24"
    and loc: "m_local_size s \<noteq> 0 \<longrightarrow>
                (case blocks h LocalBuf of Some lb \<Rightarrow> m_local_size s \<le> length lb | None \<Rightarrow> False)"
      "m_local_size s < 2 ^ 8"
  shows "case append_str s h c of
           Inl e \<Rightarrow> False
         | Inr (s2, h2, ret) \<Rightarrow>
             owned s2 \<and> ret = int (sv_size c) \<and> size_str s2 = size_str s + int (sv_size c) \<and>
             (m_data s2 = LocalBuf \<or> m_data s2 = Heap (next_block h)) \<and>
             view s2 h2 = Inr (take (m_size s) bb @ take (sv_size c) cb) \<and>
             read_bytes h2 (m_data s2) (m_size s2) 1 = Inr [NUL] \<and>
             blocks h2 (Ext k) = Some bb \<and>
             (\<forall>x. view s2 (h2\<lparr>blocks := (blocks h2)(Ext k := x)\<rparr>) = view s2 h2)"
proof -
  let ?n = "m_size s" and ?m = "sv_size c"
  have ti: "to_int (int ?n + int ?m + 1) = int ?n + int ?m + 1"
    using lim by (simp add: to_int_id)
  have tm: "to_int (int ?m) = int ?m"
    using lim by (simp add: to_int_id)
  have ts: "to_size_t (int ?n + int ?m + 1) = ?n + ?m + 1"
    using lim by (simp add: to_size_t_id nat_add_distrib)
  have bf: "bitfield 24 (int ?n + int ?m + 1) = ?n + ?m + 1" "bitfield 24 (int ?n + int ?m) = ?n + ?m"
    using lim by (simp_all add: bitfield_id nat_add_distrib)
  have bl: "bitfield 24 (int (m_local_size s)) = m_local_size s"
    using loc(2) by (simp add: bitfield_id)
  show ?thesis
  proof (cases "int ?n + int ?m + 1 < int (m_local_size s)")
    case True
    then obtain lb where lb: "blocks h LocalBuf = Some lb" "m_local_size s \<le> length lb"
      using loc(1) by (auto split: option.splits)
    have fit: "?n + ?m + 1 \<le> length lb" "?n \<le> length lb" "?n < length lb" "?n + ?m \<le> length lb"
         "?n + ?m < length lb"
      using True lb(2) by auto
    show ?thesis
      using True un dat cap b c lb fit
      by (simp add: append_str_def reserve_def size_str_def ti tm ts bf bl Let_def memcpy_def
          read_bytes_def write_bytes_def free_if_heap_def owned_def view_def)
  next
    case False
    show ?thesis
      using False un dat cap b c
      by (simp add: append_str_def reserve_def size_str_def ti tm ts bf bl Let_def memcpy_def
          read_bytes_def write_bytes_def free_if_heap_def owned_def view_def malloc_def)
  qed
qed

text \<open>
  \<^bold>\<open>Claim C7.\<close> Let \<open>b\<close> and \<open>c\<close> be views of memory of the caller. \<^verbatim>\<open>set_ref(b)\<close> (and
  \<^verbatim>\<open>Str::ref(b)\<close>, which is \<^verbatim>\<open>set_ref\<close> on a default-constructed string) returns a string that
  is not owned and whose data pointer is that of \<open>b\<close>; it allocates nothing and changes no
  block, except that a heap block owned before is released. A following \<^verbatim>\<open>append(c)\<close>
  returns the length of \<open>c\<close> and a string that is owned and holds \<open>b\<close> followed by \<open>c\<close> and a
  terminator, in the local buffer or in a fresh heap block; the bytes of \<open>b\<close> are untouched,
  and whatever is written to the block of \<open>b\<close> afterwards, the view of the string stays.
\<close>

theorem set_ref_then_append:
  assumes b: "sv_data b = Ext k" "blocks h (Ext k) = Some bb" "sv_size b \<le> length bb"
    and c: "sv_data c = Ext j" "blocks h (Ext j) = Some cb" "sv_size c \<le> length cb"
    and lim: "sv_size b + sv_size c + 1 < 2 ^ 24"
    and start: "m_owned s \<and> \<not> is_using_local_buf s \<longrightarrow>
                  (case m_data s of Heap n \<Rightarrow> blocks h (Heap n) \<noteq> None | _ \<Rightarrow> False)"
    and loc: "m_local_size s \<noteq> 0 \<longrightarrow>
                (case blocks h LocalBuf of Some lb \<Rightarrow> m_local_size s \<le> length lb | None \<Rightarrow> False)"
      "m_local_size s < 2 ^ 8"
  shows "\<exists>s1 h1 s2 h2.
           set_ref s h b = Inr (s1, h1) \<and>
           \<not> owned s1 \<and> m_data s1 = Ext k \<and> size_str s1 = int (sv_size b) \<and>
           view s1 h1 = Inr (take (sv_size b) bb) \<and>
           next_block h1 = next_block h \<and>
           (\<forall>p. blocks h1 p =
              (if m_owned s \<and> \<not> is_using_local_buf s \<and> p = m_data s then None else blocks h p)) \<and>
           append_str s1 h1 c = Inr (s2, h2, int (sv_size c)) \<and>
           owned s2 \<and> size_str s2 = int (sv_size b) + int (sv_size c) \<and>
           (m_data s2 = LocalBuf \<or> m_data s2 = Heap (next_block h)) \<and>
           view s2 h2 = Inr (take (sv_size b) bb @ take (sv_size c) cb) \<and>
           read_bytes h2 (m_data s2) (m_size s2) 1 = Inr [NUL] \<and>
           blocks h2 (Ext k) = Some bb \<and>
           (\<forall>x. view s2 (h2\<lparr>blocks := (blocks h2)(Ext k := x)\<rparr>) = view s2 h2)"
proof -
  define h1 where
    "h1 = (if m_owned s \<and> \<not> is_using_local_buf s then h\<lparr>blocks := (blocks h)(m_data s := None)\<rparr> else h)"
  define s1 where
    "s1 = s\<lparr>m_data := Ext k, m_size := sv_size b, m_capacity := sv_size b, m_owned := False\<rparr>"
  have bf: "bitfield 24 (int (sv_size b)) = sv_size b"
    using lim by (simp add: bitfield_id)
  have fr: "free_if_heap s h = Inr h1"
    using start by (auto simp: free_if_heap_def free_def h1_def split: ptr.splits)
  have sr: "set_ref s h b = Inr (s1, h1)"
    by (simp add: set_ref_def fr bf s1_def b(1))
  have keep: "blocks h1 (Ext k) = blocks h (Ext k)" "blocks h1 (Ext j) = blocks h (Ext j)"
      "blocks h1 LocalBuf = blocks h LocalBuf" "next_block h1 = next_block h"
    using start by (auto simp: h1_def is_using_local_buf_def split: ptr.splits)
  have all: "\<forall>p. blocks h1 p =
                (if m_owned s \<and> \<not> is_using_local_buf s \<and> p = m_data s then None else blocks h p)"
    by (auto simp: h1_def)
  have s1: "\<not> m_owned s1" "m_data s1 = Ext k" "m_capacity s1 = m_size s1" "m_size s1 = sv_size b"
    "m_local_size s1 = m_local_size s"
    by (simp_all add: s1_def)
  have "case append_str s1 h1 c of
           Inl e \<Rightarrow> False
         | Inr (s2, h2, ret) \<Rightarrow>
             owned s2 \<and> ret = int (sv_size c) \<and> size_str s2 = size_str s1 + int (sv_size c) \<and>
             (m_data s2 = LocalBuf \<or> m_data s2 = Heap (next_block h1)) \<and>
             view s2 h2 = Inr (take (m_size s1) bb @ take (sv_size c) cb) \<and>
             read_bytes h2 (m_data s2) (m_size s2) 1 = Inr [NUL] \<and>
             blocks h2 (Ext k) = Some bb \<and>
             (\<forall>x. view s2 (h2\<lparr>blocks := (blocks h2)(Ext k := x)\<rparr>) = view s2 h2)"
    using b c lim loc keep s1
    by (intro append_str_unowned [where j = j]) (auto split: option.splits)
  then obtain s2 h2 where ap: "append_str s1 h1 c = Inr (s2, h2, int (sv_size c))"
    and p2: "owned s2" "size_str s2 = size_str s1 + int (sv_size c)"
      "m_data s2 = LocalBuf \<or> m_data s2 = Heap (next_block h1)"
      "view s2 h2 = Inr (take (m_size s1) bb @ take (sv_size c) cb)"
      "read_bytes h2 (m_data s2) (m_size s2) 1 = Inr [NUL]"
      "blocks h2 (Ext k) = Some bb"
      "\<forall>x. view s2 (h2\<lparr>blocks := (blocks h2)(Ext k := x)\<rparr>) = view s2 h2"
    by (cases "append_str s1 h1 c") auto
  have v1: "view s1 h1 = Inr (take (sv_size b) bb)"
    using b keep by (simp add: view_def read_bytes_def s1)
  have o1: "\<not> owned s1" "size_str s1 = int (sv_size b)"
    by (simp_all add: owned_def size_str_def s1)
  show ?thesis
    using sr o1 s1(2) v1 keep(4) all ap p2
    by (intro exI [of _ s1] exI [of _ h1] exI [of _ s2] exI [of _ h2]) (simp add: s1(4))
qed

theorem set_ref_then_append_witness:
  "(blocks test_mem (Ext 0) = Some (cstr ''asdasdasd'') \<and>
    blocks test_mem (Ext 1) = Some (cstr ''aaa'') \<and>
    (\<exists>s1 h1 s2 h2.
        ref test_mem \<lparr>sv_data = Ext 0, sv_size = 9\<rparr> = Inr (s1, h1) \<and>
        \<not> owned s1 \<and> m_data s1 = Ext 0 \<and> view s1 h1 = Inr (map Some ''asdasdasd'') \<and>
        append_str s1 h1 \<lparr>sv_data = Ext 1, sv_size = 3\<rparr> = Inr (s2, h2, 3) \<and>
        owned s2 \<and> view s2 h2 = Inr (map Some ''asdasdasdaaa'') \<and>
        view s2 (h2\<lparr>blocks := (blocks h2)(Ext 0 := Some (cstr ''XXXXXXXXX''))\<rparr>) =
          Inr (map Some ''asdasdasdaaa'')))
   \<and> (m_owned h20_str \<and> blocks h20_mem (m_data h20_str) = Some (cstr ''01234567890123456789'') \<and>
    (\<exists>s1 h1 s2 h2.
        set_ref h20_str h20_mem \<lparr>sv_data = Ext 3, sv_size = 3\<rparr> = Inr (s1, h1) \<and>
        \<not> owned s1 \<and> m_data s1 = Ext 3 \<and> blocks h1 (Heap 0) = None \<and>
        append_str s1 h1 \<lparr>sv_data = Ext 0, sv_size = 10\<rparr> = Inr (s2, h2, 10) \<and>
        owned s2 \<and> view s2 h2 = Inr (map Some ''abcaaaaaaaaaa'')))"
proof -
  have blk: "blocks test_mem (Ext 0) = Some (cstr ''asdasdasd'')"
    "blocks test_mem (Ext 1) = Some (cstr ''aaa'')"
    "blocks h20_mem (Ext 3) = Some (cstr ''abc'')"
    "blocks h20_mem (Ext 0) = Some (cstr ''aaaaaaaaaa'')"
    "blocks h20_mem (Heap 0) = Some (cstr ''01234567890123456789'')"
    "blocks h20_mem LocalBuf = Some (NUL # replicate 15 None)"
    by (simp_all add: test_mem_def h20_mem_def caller_mem_def heap0_def)
  have one: "\<exists>s1 h1 s2 h2.
        ref test_mem \<lparr>sv_data = Ext 0, sv_size = 9\<rparr> = Inr (s1, h1) \<and>
        \<not> owned s1 \<and> m_data s1 = Ext 0 \<and> view s1 h1 = Inr (map Some ''asdasdasd'') \<and>
        append_str s1 h1 \<lparr>sv_data = Ext 1, sv_size = 3\<rparr> = Inr (s2, h2, 3) \<and>
        owned s2 \<and> view s2 h2 = Inr (map Some ''asdasdasdaaa'') \<and>
        view s2 (h2\<lparr>blocks := (blocks h2)(Ext 0 := Some (cstr ''XXXXXXXXX''))\<rparr>) =
          Inr (map Some ''asdasdasdaaa'')"
    using set_ref_then_append [of "\<lparr>sv_data = Ext 0, sv_size = 9\<rparr>" 0 test_mem "cstr ''asdasdasd''"
        "\<lparr>sv_data = Ext 1, sv_size = 3\<rparr>" 1 "cstr ''aaa''" Str_default] blk(1,2)
    by (fastforce simp: ref_def Str_default_def cstr_def)
  have two: "\<exists>s1 h1 s2 h2.
        set_ref h20_str h20_mem \<lparr>sv_data = Ext 3, sv_size = 3\<rparr> = Inr (s1, h1) \<and>
        \<not> owned s1 \<and> m_data s1 = Ext 3 \<and> blocks h1 (Heap 0) = None \<and>
        append_str s1 h1 \<lparr>sv_data = Ext 0, sv_size = 10\<rparr> = Inr (s2, h2, 10) \<and>
        owned s2 \<and> view s2 h2 = Inr (map Some ''abcaaaaaaaaaa'')"
    using set_ref_then_append [of "\<lparr>sv_data = Ext 3, sv_size = 3\<rparr>" 3 h20_mem "cstr ''abc''"
        "\<lparr>sv_data = Ext 0, sv_size = 10\<rparr>" 0 "cstr ''aaaaaaaaaa''" h20_str] blk(3-6)
    by (fastforce simp: h20_str_def cstr_def is_using_local_buf_def)
  from blk one two show ?thesis
    by (simp add: h20_str_def)
qed

end
